theory Spec2Isabelle
  imports Main "HOL-Library.Word"
begin

section \<open>The ligand fetcher of the pdbeccdutils tutorial notebook\<close>

text \<open>
  The notebook \<^verbatim>\<open>spring_school_2024/pdbeccdutils.ipynb\<close> defines one helper,
  \<^verbatim>\<open>get_ligand_cif(ligand_id, ligand_type)\<close>. It picks a directory on the PDBe FTP
  area with a \<^verbatim>\<open>match\<close> on \<^verbatim>\<open>ligand_type.value\<close>, joins the pieces with
  \<^verbatim>\<open>os.path.join\<close>, fetches the file with \<^verbatim>\<open>requests.get\<close>, asserts that the
  status code is 200, writes the body to \<^verbatim>\<open><cwd>/<ligand_id>.cif\<close> and returns that
  path; an \<^verbatim>\<open>AssertionError\<close> is caught, reported with \<^verbatim>\<open>print\<close>, and the function
  then returns \<^verbatim>\<open>None\<close>.

  Conventions of the embedding.
  \<^item> A Python \<^verbatim>\<open>str\<close> is a \<^typ>\<open>string\<close>; one \<^typ>\<open>char\<close> stands for one code
    point. The response body (\<^verbatim>\<open>bytes\<close>) is a list of 8-bit words.
  \<^item> \<^verbatim>\<open>os.path\<close> is \<^verbatim>\<open>posixpath\<close>: the separator is \<^verbatim>\<open>/\<close>.
  \<^item> A raised exception is the \<open>Inl\<close> of a sum; the implicit \<^verbatim>\<open>return None\<close> after the
    handler is \<open>Inr None\<close>, a returned path \<open>p\<close> is \<open>Inr (Some p)\<close>.
  \<^item> The network, the file system, the working directory and standard output are fields
    of an explicit \<open>world\<close> that every effectful step takes and returns.
\<close>

subsection \<open>Exceptions\<close>

text \<open>
  What the libraries may raise. \<^verbatim>\<open>requests.get\<close> raises subclasses of
  \<^verbatim>\<open>requests.exceptions.RequestException\<close> (\<^verbatim>\<open>Timeout\<close>, \<^verbatim>\<open>ConnectionError\<close>,
  \<^verbatim>\<open>MissingSchema\<close> and \<^verbatim>\<open>InvalidSchema\<close>, here together \<open>SchemaError\<close>);
  \<^verbatim>\<open>os.getcwd\<close>, \<^verbatim>\<open>open\<close> and \<^verbatim>\<open>write\<close> raise \<^verbatim>\<open>OSError\<close>. None of these classes
  is an \<^verbatim>\<open>AssertionError\<close>: the only \<^verbatim>\<open>AssertionError\<close> of a run is the one of the
  \<^verbatim>\<open>assert\<close> statement (asserts are enabled: the interpreter runs without \<^verbatim>\<open>-O\<close>).
\<close>

datatype env_error = Timeout | ConnectionError | SchemaError | OSError

datatype exn =
    IndexError
  | AttributeError
  | UnboundLocalError
  | AssertionError
  | Environment env_error

subsection \<open>The category argument\<close>

text \<open>
  \<^verbatim>\<open>class ligandType(Enum): CCD = "ccd"; PRD = "prd"; CLC = "clc"\<close>
\<close>

datatype ligandType = CCD | PRD | CLC

fun value_of :: "ligandType \<Rightarrow> string" where
  "value_of CCD = ''ccd''"
| "value_of PRD = ''prd''"
| "value_of CLC = ''clc''"

fun name_of :: "ligandType \<Rightarrow> string" where
  "name_of CCD = ''CCD''"
| "name_of PRD = ''PRD''"
| "name_of CLC = ''CLC''"

text \<open>
  The annotation \<^verbatim>\<open>ligand_type: ligandType\<close> is not enforced, so the argument is any
  object. The function only reads its attribute \<^verbatim>\<open>value\<close> and formats it with
  \<^verbatim>\<open>str\<close>. \<open>Foreign v s\<close> is an object that is not a member of the enumeration:
  \<open>v\<close> is its \<^verbatim>\<open>value\<close> attribute (\<open>None\<close> when it has none) and \<open>s\<close> is what
  \<^verbatim>\<open>str\<close> gives for it.

  The \<^verbatim>\<open>match\<close> compares the value with each string literal by \<^verbatim>\<open>==\<close>. \<open>Str s\<close>
  is a plain string, equal to a literal when it is that string. \<open>NotStr f\<close> is any
  other value: its own \<^verbatim>\<open>__eq__\<close> decides, and \<open>f l\<close> is the answer of
  \<^verbatim>\<open>value == l\<close> (\<open>\<lambda>l. False\<close> for a number or for an object that does not define
  \<^verbatim>\<open>__eq__\<close>). Comparing is taken to answer, without raising and without effect.
\<close>

datatype py_value = Str string | NotStr "string \<Rightarrow> bool"

fun py_eq :: "py_value \<Rightarrow> string \<Rightarrow> bool" where
  "py_eq (Str s) l = (s = l)"
| "py_eq (NotStr f) l = f l"

datatype ligand_arg = Member ligandType | Foreign "py_value option" string

fun attr_value :: "ligand_arg \<Rightarrow> exn + py_value" where
  "attr_value (Member t) = Inr (Str (value_of t))"
| "attr_value (Foreign None s) = Inl AttributeError"
| "attr_value (Foreign (Some v) s) = Inr v"

fun py_str :: "ligand_arg \<Rightarrow> string" where
  "py_str (Member t) = ''ligandType.'' @ name_of t"
| "py_str (Foreign v s) = s"

subsection \<open>Indexing a string and joining paths\<close>

text \<open>
  \<^verbatim>\<open>s[i]\<close>: a negative index counts from the end, an index out of range raises
  \<^verbatim>\<open>IndexError\<close>, and the result is a string of length one.
\<close>

definition py_getitem :: "string \<Rightarrow> int \<Rightarrow> exn + string" where
  "py_getitem s i =
     (let k = (if i < 0 then i + int (length s) else i)
      in if k < 0 \<or> int (length s) \<le> k then Inl IndexError else Inr [s ! nat k])"

definition startswith_sep :: "string \<Rightarrow> bool" where
  "startswith_sep b = (case b of [] \<Rightarrow> False | c # cs \<Rightarrow> c = CHR ''/'')"

definition endswith_sep :: "string \<Rightarrow> bool" where
  "endswith_sep p = (p \<noteq> [] \<and> last p = CHR ''/'')"

text \<open>
  \<^verbatim>\<open>posixpath.join(a, *p)\<close>: a component that starts with the separator discards all
  that came before it; otherwise it is appended, with a separator unless the path so far
  already ends with one (or is empty).
\<close>

definition join_step :: "string \<Rightarrow> string \<Rightarrow> string" where
  "join_step path b =
     (if startswith_sep b \<or> path = [] then b
      else if endswith_sep path then path @ b
      else path @ ''/'' @ b)"

definition os_path_join :: "string \<Rightarrow> string list \<Rightarrow> string" where
  "os_path_join a p = foldl join_step a p"

subsection \<open>The world\<close>

type_synonym bytes = "8 word list"

datatype get_result = Raises env_error | Response int bytes

text \<open>
  What happens when a file is opened with mode \<^verbatim>\<open>wb\<close> and written: it is stored; or
  \<^verbatim>\<open>open\<close> fails and nothing changes; or \<^verbatim>\<open>open\<close> has truncated the file and the write
  fails after some bytes.
\<close>

datatype disk_outcome = Stored | OpenFails env_error | WriteFails env_error nat

record world =
  getcwd :: "env_error + string"
  files :: "string \<rightharpoonup> bytes"
  remote :: "string \<Rightarrow> get_result"
  disk :: "string \<Rightarrow> disk_outcome"
  requests_log :: "string list"
  stdout :: "string list"

text \<open>
  \<^verbatim>\<open>requests.get(url)\<close>. A URL that starts with \<^verbatim>\<open>/\<close> has no scheme: requests raises
  \<^verbatim>\<open>MissingSchema\<close> or \<^verbatim>\<open>InvalidSchema\<close> while preparing the request, before it
  connects. Every other call goes to the network once and is logged; what comes back is
  the world's \<open>remote\<close>.
\<close>

definition requests_get :: "world \<Rightarrow> string \<Rightarrow> get_result \<times> world" where
  "requests_get w url =
     (if startswith_sep url then (Raises SchemaError, w)
      else (remote w url, w\<lparr>requests_log := requests_log w @ [url]\<rparr>))"

text \<open>\<^verbatim>\<open>with open(path, "wb") as fh: fh.write(content)\<close>\<close>

definition write_file :: "world \<Rightarrow> string \<Rightarrow> bytes \<Rightarrow> env_error option \<times> world" where
  "write_file w path content =
     (case disk w path of
        Stored \<Rightarrow> (None, w\<lparr>files := (files w)(path \<mapsto> content)\<rparr>)
      | OpenFails e \<Rightarrow> (Some e, w)
      | WriteFails e n \<Rightarrow> (Some e, w\<lparr>files := (files w)(path \<mapsto> take n content)\<rparr>))"

definition print :: "world \<Rightarrow> string \<Rightarrow> world" where
  "print w line = w\<lparr>stdout := stdout w @ [line]\<rparr>"

subsection \<open>\<^verbatim>\<open>get_ligand_cif\<close>\<close>

definition PDBECHEM_URL :: string where
  "PDBECHEM_URL = ''https://ftp.ebi.ac.uk/pub/databases/msd/pdbechem_v2''"

text \<open>
  The \<^verbatim>\<open>match\<close> statement on the value: the cases are tried in order and the first
  literal that the value compares equal to is taken. No case matching leaves
  \<^verbatim>\<open>ligand_dir\<close> unbound (\<open>Inr None\<close>); the statement itself does not raise then.
\<close>

definition match_value :: "string \<Rightarrow> py_value \<Rightarrow> exn + string option" where
  "match_value ligand_id v =
     (if py_eq v ''ccd'' then
        (case py_getitem ligand_id 0 of
           Inl e \<Rightarrow> Inl e
         | Inr c \<Rightarrow> Inr (Some (os_path_join ''ccd'' [c, ligand_id])))
      else if py_eq v ''prd'' then
        (case py_getitem ligand_id (- 1) of
           Inl e \<Rightarrow> Inl e
         | Inr c \<Rightarrow> Inr (Some (os_path_join ''prd'' [c, ligand_id])))
      else if py_eq v ''clc'' then
        (case py_getitem ligand_id (- 1) of
           Inl e \<Rightarrow> Inl e
         | Inr c \<Rightarrow> Inr (Some (os_path_join ''clc'' [c, ligand_id])))
      else Inr None)"

definition match_ligand_dir :: "string \<Rightarrow> ligand_arg \<Rightarrow> exn + string option" where
  "match_ligand_dir ligand_id ligand_type =
     (case attr_value ligand_type of
        Inl e \<Rightarrow> Inl e
      | Inr v \<Rightarrow> match_value ligand_id v)"

definition ligand_cif_path :: "string \<Rightarrow> string \<Rightarrow> string" where
  "ligand_cif_path ligand_dir ligand_id =
     os_path_join PDBECHEM_URL [ligand_dir, ligand_id @ ''.cif'']"

text \<open>
  The body of the \<^verbatim>\<open>try\<close>. Reading the unbound \<^verbatim>\<open>ligand_dir\<close> raises
  \<^verbatim>\<open>UnboundLocalError\<close>; the failed \<^verbatim>\<open>assert\<close> raises \<^verbatim>\<open>AssertionError\<close>.
\<close>

definition try_body :: "world \<Rightarrow> string \<Rightarrow> string option \<Rightarrow> (exn + string) \<times> world" where
  "try_body w ligand_id ligand_dir =
     (case ligand_dir of
        None \<Rightarrow> (Inl UnboundLocalError, w)
      | Some d \<Rightarrow>
          (case requests_get w (ligand_cif_path d ligand_id) of
             (Raises e, w1) \<Rightarrow> (Inl (Environment e), w1)
           | (Response status_code content, w1) \<Rightarrow>
               if status_code \<noteq> 200 then (Inl AssertionError, w1)
               else
                 (case getcwd w1 of
                    Inl e \<Rightarrow> (Inl (Environment e), w1)
                  | Inr cwd \<Rightarrow>
                      (let ligand_cif_file = os_path_join cwd [ligand_id @ ''.cif'']
                       in case write_file w1 ligand_cif_file content of
                            (Some e, w2) \<Rightarrow> (Inl (Environment e), w2)
                          | (None, w2) \<Rightarrow> (Inr ligand_cif_file, w2)))))"

definition diagnostic :: "string \<Rightarrow> ligand_arg \<Rightarrow> string" where
  "diagnostic ligand_id ligand_type =
     ''Couldn'' @ [CHR 0x27] @ ''t find the file. Check if '' @ ligand_id @ '' & ''
       @ py_str ligand_type @ '' are valid, if so try again''"

text \<open>
  The whole function: the \<^verbatim>\<open>match\<close> runs outside the \<^verbatim>\<open>try\<close>, and the handler
  catches \<^verbatim>\<open>AssertionError\<close> only.
\<close>

definition get_ligand_cif ::
  "world \<Rightarrow> string \<Rightarrow> ligand_arg \<Rightarrow> (exn + string option) \<times> world" where
  "get_ligand_cif w ligand_id ligand_type =
     (case match_ligand_dir ligand_id ligand_type of
        Inl e \<Rightarrow> (Inl e, w)
      | Inr ligand_dir \<Rightarrow>
          (case try_body w ligand_id ligand_dir of
             (Inr p, w') \<Rightarrow> (Inr (Some p), w')
           | (Inl AssertionError, w') \<Rightarrow> (Inr None, print w' (diagnostic ligand_id ligand_type))
           | (Inl e, w') \<Rightarrow> (Inl e, w')))"

text \<open>
  The URL that a call assembles, or the exception raised before it is assembled.
\<close>

definition assembled_url :: "string \<Rightarrow> ligand_arg \<Rightarrow> exn + string" where
  "assembled_url ligand_id ligand_type =
     (case match_ligand_dir ligand_id ligand_type of
        Inl e \<Rightarrow> Inl e
      | Inr None \<Rightarrow> Inl UnboundLocalError
      | Inr (Some d) \<Rightarrow> Inr (ligand_cif_path d ligand_id))"

text \<open>
  The argument selects a case of the \<^verbatim>\<open>match\<close> when it has a \<^verbatim>\<open>value\<close> and that
  value compares equal to one of the three literals.
\<close>

definition selects_case :: "ligand_arg \<Rightarrow> bool" where
  "selects_case a =
     (case attr_value a of
        Inl e \<Rightarrow> False
      | Inr v \<Rightarrow> py_eq v ''ccd'' \<or> py_eq v ''prd'' \<or> py_eq v ''clc'')"

subsection \<open>The specification's wording\<close>

text \<open>
  The URL as the specification words it:
  \<^verbatim>\<open><base-url>/<category>/<shard>/<identifier>/<identifier>.cif\<close>, the shard being the
  first character of the identifier for CCD and the last one for PRD and CLC.
\<close>

definition spec_url :: "string \<Rightarrow> ligandType \<Rightarrow> string" where
  "spec_url ligand_id t =
     PDBECHEM_URL @ ''/'' @ value_of t @ ''/''
       @ [case t of CCD \<Rightarrow> hd ligand_id | PRD \<Rightarrow> last ligand_id | CLC \<Rightarrow> last ligand_id]
       @ ''/'' @ ligand_id @ ''/'' @ ligand_id @ ''.cif''"

text \<open>
  The path of the entry called \<open>name\<close> in the directory \<open>dir\<close>: one separator between
  the two, none added after a directory that already ends with it (the root \<^verbatim>\<open>/\<close>).
\<close>

definition file_in_dir :: "string \<Rightarrow> string \<Rightarrow> string" where
  "file_in_dir dir name =
     (if dir = [] \<or> last dir = CHR ''/'' then dir @ name else dir @ ''/'' @ name)"

subsection \<open>A sample run\<close>

text \<open>
  A world with working directory \<^verbatim>\<open>/home/user\<close>, no files, nothing requested and
  nothing printed yet, in which every GET yields \<open>r\<close> and every write ends as \<open>d\<close>;
  and the URL of the notebook's own example, \<^verbatim>\<open>get_ligand_cif("HEM", ligandType.CCD)\<close>.
\<close>

definition hem_world :: "get_result \<Rightarrow> disk_outcome \<Rightarrow> world" where
  "hem_world r d =
     \<lparr>getcwd = Inr ''/home/user'', files = Map.empty, remote = (\<lambda>url. r),
      disk = (\<lambda>path. d), requests_log = [], stdout = []\<rparr>"

definition HEM_URL :: string where
  "HEM_URL = ''https://ftp.ebi.ac.uk/pub/databases/msd/pdbechem_v2/ccd/H/HEM/HEM.cif''"

text \<open>The sample world after a successful fetch of HEM that received the payload \<open>c\<close>.\<close>

definition hem_world_fetched :: "bytes \<Rightarrow> world" where
  "hem_world_fetched c =
     (hem_world (Response 200 c) Stored)
       \<lparr>requests_log := [HEM_URL], files := [''/home/user/HEM.cif'' \<mapsto> c]\<rparr>"

text \<open>
  The identifiers of the other examples: one that does not exist, and one for each of the
  other two categories.
\<close>

definition ZZZ_URL :: string where
  "ZZZ_URL = ''https://ftp.ebi.ac.uk/pub/databases/msd/pdbechem_v2/ccd/Z/ZZZZ999/ZZZZ999.cif''"

definition PRD_URL :: string where
  "PRD_URL =
     ''https://ftp.ebi.ac.uk/pub/databases/msd/pdbechem_v2/prd/1/PRD_000001/PRD_000001.cif''"

definition CLC_URL :: string where
  "CLC_URL =
     ''https://ftp.ebi.ac.uk/pub/databases/msd/pdbechem_v2/clc/2/CLC_00002/CLC_00002.cif''"

section \<open>Indexing and joining\<close>

lemma py_getitem_first: "s \<noteq> [] \<Longrightarrow> py_getitem s 0 = Inr [hd s]"
  by (cases s) (simp_all add: py_getitem_def)

lemma py_getitem_last: "s \<noteq> [] \<Longrightarrow> py_getitem s (- 1) = Inr [last s]"
proof -
  assume ne: "s \<noteq> []"
  then have len: "0 < length s" by simp
  then have "nat (- 1 + int (length s)) = length s - 1" by linarith
  with ne len show ?thesis
    by (simp add: py_getitem_def Let_def last_conv_nth)
qed

lemma py_getitem_empty: "py_getitem [] i = Inl IndexError"
  by (simp add: py_getitem_def Let_def)

lemma startswith_sep_iff: "startswith_sep b \<longleftrightarrow> (b \<noteq> [] \<and> hd b = CHR ''/'')"
  by (cases b) (simp_all add: startswith_sep_def)

lemma join_step_reset: "startswith_sep b \<Longrightarrow> join_step path b = b"
  by (simp add: join_step_def)

lemma os_path_join_last_reset: "startswith_sep b \<Longrightarrow> os_path_join a (p @ [b]) = b"
  by (simp add: os_path_join_def join_step_reset)

lemma join_one: "\<not> startswith_sep name \<Longrightarrow> os_path_join dir [name] = file_in_dir dir name"
  by (auto simp add: os_path_join_def join_step_def file_in_dir_def endswith_sep_def)

section \<open>The directory and the URL\<close>

lemma member_dir:
  assumes "ligand_id \<noteq> []"
  shows "match_ligand_dir ligand_id (Member t) =
     Inr (Some (os_path_join (value_of t)
        [ [case t of CCD \<Rightarrow> hd ligand_id | PRD \<Rightarrow> last ligand_id | CLC \<Rightarrow> last ligand_id],
         ligand_id]))"
  using assms
  by (cases t) (simp_all add: match_ligand_dir_def match_value_def py_getitem_first py_getitem_last)

lemma assembled_url_member:
  assumes "ligand_id \<noteq> []" "hd ligand_id \<noteq> CHR ''/''" "last ligand_id \<noteq> CHR ''/''"
  shows "assembled_url ligand_id (Member t) = Inr (spec_url ligand_id t)"
proof -
  let ?c = "case t of CCD \<Rightarrow> hd ligand_id | PRD \<Rightarrow> last ligand_id | CLC \<Rightarrow> last ligand_id"
  from assms have "os_path_join (value_of t) [ [?c], ligand_id]
      = value_of t @ ''/'' @ [?c] @ ''/'' @ ligand_id"
    by (cases t) (simp_all add: os_path_join_def join_step_def startswith_sep_iff endswith_sep_def)
  moreover have "value_of t \<noteq> []" "hd (value_of t) \<noteq> CHR ''/''"
    by (cases t; simp)+
  ultimately show ?thesis
    using assms
    by (simp add: assembled_url_def member_dir ligand_cif_path_def spec_url_def os_path_join_def
        join_step_def startswith_sep_iff endswith_sep_def PDBECHEM_URL_def)
qed

lemma spec_url_not_sep: "\<not> startswith_sep (spec_url i t)"
  by (simp add: spec_url_def PDBECHEM_URL_def startswith_sep_def)

text \<open>
  An identifier that starts with the separator makes \<^verbatim>\<open>os.path.join\<close> drop the base
  URL and the directory: the "URL" is the file name alone.
\<close>

lemma url_head_slash:
  assumes "ligand_id \<noteq> []" "hd ligand_id = CHR ''/''"
  shows "assembled_url ligand_id (Member t) = Inr (ligand_id @ ''.cif'')"
proof -
  from assms have "startswith_sep (ligand_id @ ''.cif'')"
    by (cases ligand_id) (simp_all add: startswith_sep_def)
  then have "ligand_cif_path d ligand_id = ligand_id @ ''.cif''" for d
    using os_path_join_last_reset [of "ligand_id @ ''.cif''" PDBECHEM_URL "[d]"]
    by (simp add: ligand_cif_path_def)
  then show ?thesis
    using assms by (simp add: assembled_url_def member_dir)
qed

text \<open>
  The two conditions of \<open>assembled_url_member\<close> are needed: with a separator at either
  end of the identifier the assembled URL is not the one of the specification.
\<close>

lemma url_wrong_at_slash:
  assumes "ligand_id \<noteq> []" "hd ligand_id = CHR ''/'' \<or> last ligand_id = CHR ''/''"
  shows "assembled_url ligand_id (Member t) \<noteq> Inr (spec_url ligand_id t)"
proof (cases "hd ligand_id = CHR ''/''")
  case True
  with assms have "assembled_url ligand_id (Member t) = Inr (ligand_id @ ''.cif'')"
    by (simp add: url_head_slash)
  moreover have "startswith_sep (ligand_id @ ''.cif'')"
    using True assms by (cases ligand_id) (simp_all add: startswith_sep_def)
  ultimately show ?thesis
    using spec_url_not_sep [of ligand_id t] by auto
next
  case False
  with assms have l: "last ligand_id = CHR ''/''" by simp
  have len: "length (spec_url ligand_id t) = length PDBECHEM_URL + 2 * length ligand_id + 12"
    by (cases t) (simp_all add: spec_url_def)
  show ?thesis
  proof (cases t)
    case CCD
    have "assembled_url ligand_id (Member t)
        = Inr (PDBECHEM_URL @ ''/ccd/'' @ [hd ligand_id] @ ''/'' @ ligand_id @ ligand_id @ ''.cif'')"
      using assms False l CCD
      by (simp add: assembled_url_def member_dir ligand_cif_path_def os_path_join_def
          join_step_def startswith_sep_iff endswith_sep_def PDBECHEM_URL_def)
    then show ?thesis
      using len by (auto simp: PDBECHEM_URL_def dest!: arg_cong [where f = length])
  next
    case PRD
    have "assembled_url ligand_id (Member t) = Inr (''/'' @ ligand_id @ ligand_id @ ''.cif'')"
      using assms False l PRD
      by (simp add: assembled_url_def member_dir ligand_cif_path_def os_path_join_def
          join_step_def startswith_sep_iff endswith_sep_def PDBECHEM_URL_def)
    then show ?thesis by (simp add: spec_url_def PDBECHEM_URL_def)
  next
    case CLC
    have "assembled_url ligand_id (Member t) = Inr (''/'' @ ligand_id @ ligand_id @ ''.cif'')"
      using assms False l CLC
      by (simp add: assembled_url_def member_dir ligand_cif_path_def os_path_join_def
          join_step_def startswith_sep_iff endswith_sep_def PDBECHEM_URL_def)
    then show ?thesis by (simp add: spec_url_def PDBECHEM_URL_def)
  qed
qed

section \<open>The paths through one call\<close>

lemma run_before_url:
  "assembled_url ligand_id a = Inl e \<Longrightarrow> get_ligand_cif w ligand_id a = (Inl e, w)"
  by (cases e)
     (auto simp add: assembled_url_def get_ligand_cif_def try_body_def
        split: sum.splits option.splits)

lemma response_means_logged:
  assumes "fst (requests_get w url) = Response s c"
  shows "\<not> startswith_sep url" "remote w url = Response s c"
    "snd (requests_get w url) = w\<lparr>requests_log := requests_log w @ [url]\<rparr>"
  using assms by (auto simp add: requests_get_def split: if_splits)

lemma run_get_raises:
  assumes "assembled_url ligand_id a = Inr url" "fst (requests_get w url) = Raises e"
  shows "get_ligand_cif w ligand_id a = (Inl (Environment e), snd (requests_get w url))"
  using assms
  by (auto simp add: assembled_url_def get_ligand_cif_def try_body_def
        split: sum.splits option.splits prod.splits)

lemma run_bad_status:
  assumes "assembled_url ligand_id a = Inr url" "fst (requests_get w url) = Response s c"
    "s \<noteq> 200"
  shows "get_ligand_cif w ligand_id a =
           (Inr None, print (snd (requests_get w url)) (diagnostic ligand_id a))"
  using assms
  by (auto simp add: assembled_url_def get_ligand_cif_def try_body_def
        split: sum.splits option.splits prod.splits)

lemma run_getcwd_raises:
  assumes "assembled_url ligand_id a = Inr url" "fst (requests_get w url) = Response 200 c"
    "getcwd w = Inl e"
  shows "get_ligand_cif w ligand_id a = (Inl (Environment e), snd (requests_get w url))"
  using assms
  by (auto simp add: assembled_url_def get_ligand_cif_def try_body_def requests_get_def
        split: sum.splits option.splits prod.splits if_splits)

lemma run_write:
  assumes "assembled_url ligand_id a = Inr url" "fst (requests_get w url) = Response 200 c"
    "getcwd w = Inr cwd"
  shows "get_ligand_cif w ligand_id a =
     (case write_file (snd (requests_get w url)) (os_path_join cwd [ligand_id @ ''.cif'']) c of
        (Some e, w2) \<Rightarrow> (Inl (Environment e), w2)
      | (None, w2) \<Rightarrow> (Inr (Some (os_path_join cwd [ligand_id @ ''.cif''])), w2))"
  using assms
  by (auto simp add: assembled_url_def get_ligand_cif_def try_body_def requests_get_def Let_def
        split: sum.splits option.splits prod.splits if_splits)

text \<open>
  A URL that got a response has a scheme, so the identifier does not start with the
  separator and the local file name is not an absolute path.
\<close>

lemma url_sep_of_name:
  assumes "assembled_url ligand_id a = Inr url" "\<not> startswith_sep url"
  shows "\<not> startswith_sep (ligand_id @ ''.cif'')"
proof
  assume s: "startswith_sep (ligand_id @ ''.cif'')"
  from assms(1) obtain d where "url = ligand_cif_path d ligand_id"
    by (auto simp add: assembled_url_def split: sum.splits option.splits)
  then have "url = ligand_id @ ''.cif''"
    using os_path_join_last_reset [OF s, of PDBECHEM_URL "[d]"]
    by (simp add: ligand_cif_path_def)
  with s assms(2) show False by simp
qed

lemma local_file_name:
  assumes "assembled_url ligand_id a = Inr url" "fst (requests_get w url) = Response s c"
  shows "os_path_join cwd [ligand_id @ ''.cif''] = file_in_dir cwd (ligand_id @ ''.cif'')"
  using url_sep_of_name [OF assms(1)] response_means_logged(1) [OF assms(2)]
  by (simp add: join_one)

lemma run_stored:
  assumes "assembled_url ligand_id a = Inr url" "fst (requests_get w url) = Response 200 c"
    "getcwd w = Inr cwd" "disk w (file_in_dir cwd (ligand_id @ ''.cif'')) = Stored"
  shows "get_ligand_cif w ligand_id a =
     (Inr (Some (file_in_dir cwd (ligand_id @ ''.cif''))),
      w\<lparr>requests_log := requests_log w @ [url],
        files := (files w)(file_in_dir cwd (ligand_id @ ''.cif'') \<mapsto> c)\<rparr>)"
  using assms(4)
  by (simp add: run_write [OF assms(1-3)] local_file_name [OF assms(1,2)]
      response_means_logged(3) [OF assms(2)] write_file_def)

lemma run_disk_fails:
  assumes "assembled_url ligand_id a = Inr url" "fst (requests_get w url) = Response 200 c"
    "getcwd w = Inr cwd"
    "disk w (file_in_dir cwd (ligand_id @ ''.cif'')) = OpenFails e
     \<or> disk w (file_in_dir cwd (ligand_id @ ''.cif'')) = WriteFails e n"
  shows "fst (get_ligand_cif w ligand_id a) = Inl (Environment e)"
  using assms(4)
  by (auto simp add: run_write [OF assms(1-3)] local_file_name [OF assms(1,2)]
      response_means_logged(3) [OF assms(2)] write_file_def)

lemma log_after_call:
  assumes "assembled_url ligand_id a = Inr url" "\<not> startswith_sep url"
  shows "requests_log (snd (get_ligand_cif w ligand_id a)) = requests_log w @ [url]"
  using assms
  by (auto simp add: assembled_url_def get_ligand_cif_def try_body_def requests_get_def
        write_file_def print_def Let_def
        split: sum.splits option.splits prod.splits if_splits get_result.splits exn.splits
          disk_outcome.splits)

lemma stdout_after_200:
  assumes "assembled_url ligand_id a = Inr url" "fst (requests_get w url) = Response 200 c"
  shows "stdout (snd (get_ligand_cif w ligand_id a)) = stdout w"
  using assms
  by (auto simp add: assembled_url_def get_ligand_cif_def try_body_def requests_get_def
        write_file_def Let_def
        split: sum.splits option.splits prod.splits if_splits get_result.splits exn.splits
          disk_outcome.splits)

text \<open>Reading a result backwards: what a returned path and a returned \<^verbatim>\<open>None\<close> tell.\<close>

lemma outcome_cases:
  obtains (before) e where "assembled_url ligand_id a = Inl e"
  | (get_raises) url e where "assembled_url ligand_id a = Inr url"
      "fst (requests_get w url) = Raises e"
  | (bad_status) url s c where "assembled_url ligand_id a = Inr url"
      "fst (requests_get w url) = Response s c" "s \<noteq> 200"
  | (no_cwd) url c e where "assembled_url ligand_id a = Inr url"
      "fst (requests_get w url) = Response 200 c" "getcwd w = Inl e"
  | (disk_fails) url c cwd e n where "assembled_url ligand_id a = Inr url"
      "fst (requests_get w url) = Response 200 c" "getcwd w = Inr cwd"
      "disk w (file_in_dir cwd (ligand_id @ ''.cif'')) = OpenFails e
       \<or> disk w (file_in_dir cwd (ligand_id @ ''.cif'')) = WriteFails e n"
  | (stored) url c cwd where "assembled_url ligand_id a = Inr url"
      "fst (requests_get w url) = Response 200 c" "getcwd w = Inr cwd"
      "disk w (file_in_dir cwd (ligand_id @ ''.cif'')) = Stored"
proof (cases "assembled_url ligand_id a")
  case (Inl e)
  then show ?thesis by (rule before)
next
  case (Inr url)
  show ?thesis
  proof (cases "fst (requests_get w url)")
    case (Raises e)
    with Inr show ?thesis by (rule get_raises)
  next
    case (Response s c)
    show ?thesis
    proof (cases "s = 200")
      case False
      with Inr Response show ?thesis by (rule bad_status)
    next
      case True
      note R = Response [unfolded True]
      show ?thesis
      proof (cases "getcwd w")
        case (Inl e)
        with Inr R show ?thesis by (rule no_cwd)
      next
        case cwd: (Inr cwd)
        show ?thesis
        proof (cases "disk w (file_in_dir cwd (ligand_id @ ''.cif''))")
          case Stored
          with Inr R cwd show ?thesis by (rule stored)
        next
          case (OpenFails e)
          then show ?thesis using disk_fails [OF Inr R cwd, of e] by simp
        next
          case (WriteFails e n)
          then show ?thesis using disk_fails [OF Inr R cwd, of e n] by simp
        qed
      qed
    qed
  qed
qed

lemma success_inversion:
  assumes "get_ligand_cif w ligand_id a = (Inr (Some p), w')"
  shows "\<exists>url c cwd. assembled_url ligand_id a = Inr url
      \<and> fst (requests_get w url) = Response 200 c
      \<and> getcwd w = Inr cwd
      \<and> p = file_in_dir cwd (ligand_id @ ''.cif'')
      \<and> disk w p = Stored
      \<and> w' = w\<lparr>requests_log := requests_log w @ [url], files := (files w)(p \<mapsto> c)\<rparr>"
proof (cases rule: outcome_cases [where ligand_id = ligand_id and a = a and w = w])
  case (before e)
  with assms show ?thesis by (simp add: run_before_url)
next
  case (get_raises url e)
  with assms show ?thesis by (simp add: run_get_raises)
next
  case (bad_status url s c)
  with assms show ?thesis by (simp add: run_bad_status)
next
  case (no_cwd url c e)
  with assms show ?thesis by (simp add: run_getcwd_raises)
next
  case (disk_fails url c cwd e n)
  from run_disk_fails [OF this] assms show ?thesis by simp
next
  case (stored url c cwd)
  from assms show ?thesis
    unfolding run_stored [OF stored] using stored by auto
qed

lemma none_inversion:
  assumes "fst (get_ligand_cif w ligand_id a) = Inr None"
  shows "\<exists>url s c. assembled_url ligand_id a = Inr url
      \<and> fst (requests_get w url) = Response s c \<and> s \<noteq> 200"
proof (cases rule: outcome_cases [where ligand_id = ligand_id and a = a and w = w])
  case (before e)
  with assms show ?thesis by (simp add: run_before_url)
next
  case (get_raises url e)
  with assms show ?thesis by (simp add: run_get_raises)
next
  case (bad_status url s c)
  then show ?thesis by blast
next
  case (no_cwd url c e)
  with assms show ?thesis by (simp add: run_getcwd_raises)
next
  case (disk_fails url c cwd e n)
  from run_disk_fails [OF this] assms show ?thesis by simp
next
  case (stored url c cwd)
  with assms show ?thesis by (simp add: run_stored)
qed

section \<open>The sample run\<close>

lemma hem_url: "assembled_url ''HEM'' (Member CCD) = Inr HEM_URL"
  by (simp add: assembled_url_member spec_url_def PDBECHEM_URL_def HEM_URL_def)

lemma hem_get: "fst (requests_get (hem_world r d) HEM_URL) = r"
  by (simp add: requests_get_def hem_world_def HEM_URL_def startswith_sep_def)

lemma hem_fields:
  "getcwd (hem_world r d) = Inr ''/home/user''"
  "files (hem_world r d) = Map.empty"
  "disk (hem_world r d) p = d"
  "requests_log (hem_world r d) = []"
  "stdout (hem_world r d) = []"
  by (simp_all add: hem_world_def)

lemma hem_file: "file_in_dir ''/home/user'' ''HEM.cif'' = ''/home/user/HEM.cif''"
  by (simp add: file_in_dir_def)

lemma hem_first:
  "get_ligand_cif (hem_world (Response 200 c) Stored) ''HEM'' (Member CCD)
     = (Inr (Some ''/home/user/HEM.cif''), hem_world_fetched c)"
  using run_stored [OF hem_url, of "hem_world (Response 200 c) Stored" c "''/home/user''"]
  by (simp add: hem_get hem_fields hem_file hem_world_fetched_def)

lemma hem_fetched_fields:
  "getcwd (hem_world_fetched c) = Inr ''/home/user''"
  "files (hem_world_fetched c) = [''/home/user/HEM.cif'' \<mapsto> c]"
  "disk (hem_world_fetched c) p = Stored"
  "remote (hem_world_fetched c) u = Response 200 c"
  by (simp_all add: hem_world_fetched_def hem_world_def)

lemma hem_fetched_get: "fst (requests_get (hem_world_fetched c) HEM_URL) = Response 200 c"
  by (simp add: requests_get_def hem_fetched_fields HEM_URL_def startswith_sep_def)

lemma hem_again:
  "fst (get_ligand_cif (hem_world_fetched c) ''HEM'' (Member CCD))
     = Inr (Some ''/home/user/HEM.cif'')"
  using run_stored [OF hem_url, of "hem_world_fetched c" c "''/home/user''"]
  by (simp add: hem_fetched_get hem_fetched_fields hem_file)

lemma hem_get_any: "\<not> startswith_sep url \<Longrightarrow> fst (requests_get (hem_world r d) url) = r"
  by (simp add: requests_get_def hem_world_def)

lemma sample_urls:
  "assembled_url ''ZZZZ999'' (Member CCD) = Inr ZZZ_URL"
  "assembled_url ''PRD_000001'' (Member PRD) = Inr PRD_URL"
  "assembled_url ''CLC_00002'' (Member CLC) = Inr CLC_URL"
  by (simp_all add: assembled_url_member spec_url_def PDBECHEM_URL_def ZZZ_URL_def PRD_URL_def
      CLC_URL_def)

lemma sample_gets:
  "fst (requests_get (hem_world r d) ZZZ_URL) = r"
  "fst (requests_get (hem_world r d) PRD_URL) = r"
  "fst (requests_get (hem_world r d) CLC_URL) = r"
  by (simp_all add: hem_get_any startswith_sep_def ZZZ_URL_def PRD_URL_def CLC_URL_def)

text \<open>
  An object that is not a member but whose value is the string of a member is matched
  like that member.
\<close>

lemma foreign_like_member:
  "match_ligand_dir ligand_id (Foreign (Some (Str (value_of t))) s)
     = match_ligand_dir ligand_id (Member t)"
  by (simp add: match_ligand_dir_def)

lemma foreign_url_like_member:
  "assembled_url ligand_id (Foreign (Some (Str (value_of t))) s)
     = assembled_url ligand_id (Member t)"
  by (simp add: assembled_url_def foreign_like_member)

section \<open>The shard\<close>

text \<open>
  C1. For a non-empty identifier, the directory component that the \<^verbatim>\<open>match\<close> puts
  between the category and the identifier is the first character of the identifier for
  CCD and its last character for PRD and CLC, exactly as it stands in the identifier
  (no change of case).
\<close>

theorem shard_is_first_or_last:
  assumes "ligand_id \<noteq> []"
  shows "match_ligand_dir ligand_id (Member CCD)
           = Inr (Some (os_path_join ''ccd'' [ [hd ligand_id], ligand_id]))
       \<and> match_ligand_dir ligand_id (Member PRD)
           = Inr (Some (os_path_join ''prd'' [ [last ligand_id], ligand_id]))
       \<and> match_ligand_dir ligand_id (Member CLC)
           = Inr (Some (os_path_join ''clc'' [ [last ligand_id], ligand_id]))"
  using assms
  by (simp add: match_ligand_dir_def match_value_def py_getitem_first py_getitem_last)

theorem shard_is_first_or_last_witness:
  "''hEm'' \<noteq> []
   \<and> match_ligand_dir ''hEm'' (Member CCD) = Inr (Some ''ccd/h/hEm'')
   \<and> match_ligand_dir ''hEm'' (Member PRD) = Inr (Some ''prd/m/hEm'')
   \<and> match_ligand_dir ''hEm'' (Member CLC) = Inr (Some ''clc/m/hEm'')"
  using shard_is_first_or_last [of "''hEm''"]
  by (simp add: os_path_join_def join_step_def startswith_sep_def endswith_sep_def)

section \<open>The remote URL\<close>

text \<open>
  C2, as the code has it. For a non-empty identifier that neither starts nor ends with
  \<^verbatim>\<open>/\<close> and each of the three categories, the assembled URL is the base URL followed
  by \<^verbatim>\<open>/<category>/<shard>/<id>/<id>.cif\<close>, and the call sends its GET to that URL.
\<close>

theorem url_is_base_category_shard_id:
  assumes "ligand_id \<noteq> []" "hd ligand_id \<noteq> CHR ''/''" "last ligand_id \<noteq> CHR ''/''"
  shows "assembled_url ligand_id (Member t) = Inr (spec_url ligand_id t)
       \<and> requests_log (snd (get_ligand_cif w ligand_id (Member t)))
           = requests_log w @ [spec_url ligand_id t]"
  using assms
  by (simp add: assembled_url_member log_after_call spec_url_not_sep)

theorem url_is_base_category_shard_id_witness:
  "''HEM'' \<noteq> [] \<and> hd ''HEM'' \<noteq> CHR ''/'' \<and> last ''HEM'' \<noteq> CHR ''/''
   \<and> assembled_url ''HEM'' (Member CCD)
       = Inr ''https://ftp.ebi.ac.uk/pub/databases/msd/pdbechem_v2/ccd/H/HEM/HEM.cif''
   \<and> requests_log (snd (get_ligand_cif (hem_world (Response 200 []) Stored) ''HEM'' (Member CCD)))
       = [''https://ftp.ebi.ac.uk/pub/databases/msd/pdbechem_v2/ccd/H/HEM/HEM.cif'']"
  using url_is_base_category_shard_id [of "''HEM''" CCD "hem_world (Response 200 []) Stored"]
  by (simp add: spec_url_def PDBECHEM_URL_def hem_world_def)

text \<open>
  C2, as the specification states it, fails for the non-empty identifier \<^verbatim>\<open>/x\<close>:
  \<^verbatim>\<open>os.path.join("ccd", "/", "/x")\<close> is \<^verbatim>\<open>/x\<close> and joining the base URL with
  \<^verbatim>\<open>/x\<close> and \<^verbatim>\<open>/x.cif\<close> leaves \<^verbatim>\<open>/x.cif\<close>, without base URL, category or shard.
\<close>

theorem url_with_leading_slash_counterexample:
  "assembled_url ''/x'' (Member CCD) = Inr ''/x.cif''
   \<and> assembled_url ''/x'' (Member CCD) \<noteq> Inr (spec_url ''/x'' CCD)
   \<and> spec_url ''/x'' CCD = ''https://ftp.ebi.ac.uk/pub/databases/msd/pdbechem_v2/ccd////x//x.cif''"
  by (simp add: url_head_slash spec_url_def PDBECHEM_URL_def)

section \<open>The status check\<close>

text \<open>
  C3. When the GET of a call comes back with a response, the call takes the failure path
  (it returns \<^verbatim>\<open>None\<close> and prints the diagnostic) exactly when the status code is not
  200, and in either case the call has sent one GET, to the assembled URL.
\<close>

theorem status_200_decides:
  assumes "assembled_url ligand_id a = Inr url" "fst (requests_get w url) = Response s c"
  shows "(fst (get_ligand_cif w ligand_id a) = Inr None) = (s \<noteq> 200)
       \<and> (stdout (snd (get_ligand_cif w ligand_id a)) = stdout w @ [diagnostic ligand_id a])
           = (s \<noteq> 200)
       \<and> requests_log (snd (get_ligand_cif w ligand_id a)) = requests_log w @ [url]"
proof -
  have log: "requests_log (snd (get_ligand_cif w ligand_id a)) = requests_log w @ [url]"
    using assms response_means_logged(1) by (simp add: log_after_call)
  show ?thesis
  proof (cases "s = 200")
    case False
    with assms log show ?thesis
      by (simp add: run_bad_status response_means_logged(3) print_def)
  next
    case True
    have "fst (get_ligand_cif w ligand_id a) \<noteq> Inr None"
    proof
      assume "fst (get_ligand_cif w ligand_id a) = Inr None"
      from none_inversion [OF this] assms True show False by auto
    qed
    moreover have "stdout (snd (get_ligand_cif w ligand_id a)) = stdout w"
      using assms True by (simp add: stdout_after_200)
    ultimately show ?thesis
      using True log by simp
  qed
qed

theorem status_200_decides_witness:
  "assembled_url ''HEM'' (Member CCD) = Inr HEM_URL
   \<and> fst (requests_get (hem_world (Response 404 []) Stored) HEM_URL) = Response 404 []
   \<and> fst (get_ligand_cif (hem_world (Response 404 []) Stored) ''HEM'' (Member CCD)) = Inr None
   \<and> requests_log (snd (get_ligand_cif (hem_world (Response 404 []) Stored) ''HEM'' (Member CCD)))
       = [HEM_URL]
   \<and> fst (requests_get (hem_world (Response 200 [72, 69]) Stored) HEM_URL) = Response 200 [72, 69]
   \<and> fst (get_ligand_cif (hem_world (Response 200 [72, 69]) Stored) ''HEM'' (Member CCD))
       \<noteq> Inr None
   \<and> requests_log (snd (get_ligand_cif (hem_world (Response 200 [72, 69]) Stored) ''HEM'' (Member CCD)))
       = [HEM_URL]"
  using
    status_200_decides [of "''HEM''" "Member CCD" HEM_URL
      "hem_world (Response 404 []) Stored" 404 "[]"]
    status_200_decides [of "''HEM''" "Member CCD" HEM_URL
      "hem_world (Response 200 [72, 69]) Stored" 200 "[72, 69]"]
  by (simp add: hem_url hem_get hem_fields)

section \<open>The success path\<close>

text \<open>
  C4. When the response has status 200 (and neither \<^verbatim>\<open>os.getcwd\<close> nor the write
  raises), the call returns the path of \<^verbatim>\<open><identifier>.cif\<close> in the working directory,
  and after the call that file holds the payload, byte for byte, so that its length is
  the payload's.
\<close>

theorem success_writes_payload:
  assumes "assembled_url ligand_id a = Inr url"
    and "fst (requests_get w url) = Response 200 payload"
    and "getcwd w = Inr cwd"
    and "disk w (file_in_dir cwd (ligand_id @ ''.cif'')) = Stored"
  shows "fst (get_ligand_cif w ligand_id a) = Inr (Some (file_in_dir cwd (ligand_id @ ''.cif'')))
       \<and> files (snd (get_ligand_cif w ligand_id a)) (file_in_dir cwd (ligand_id @ ''.cif''))
           = Some payload
       \<and> map_option length
           (files (snd (get_ligand_cif w ligand_id a)) (file_in_dir cwd (ligand_id @ ''.cif'')))
           = Some (length payload)"
  by (simp add: run_stored [OF assms])

theorem success_writes_payload_witness:
  "assembled_url ''HEM'' (Member CCD) = Inr HEM_URL
   \<and> fst (requests_get (hem_world (Response 200 [72, 69, 77]) Stored) HEM_URL)
       = Response 200 [72, 69, 77]
   \<and> getcwd (hem_world (Response 200 [72, 69, 77]) Stored) = Inr ''/home/user''
   \<and> disk (hem_world (Response 200 [72, 69, 77]) Stored) ''/home/user/HEM.cif'' = Stored
   \<and> fst (get_ligand_cif (hem_world (Response 200 [72, 69, 77]) Stored) ''HEM'' (Member CCD))
       = Inr (Some ''/home/user/HEM.cif'')
   \<and> files (snd (get_ligand_cif (hem_world (Response 200 [72, 69, 77]) Stored) ''HEM'' (Member CCD)))
         ''/home/user/HEM.cif'' = Some [72, 69, 77]"
  using success_writes_payload [of "''HEM''" "Member CCD" HEM_URL
      "hem_world (Response 200 [72, 69, 77]) Stored" "[72, 69, 77]" "''/home/user''"]
  by (simp add: hem_url hem_get hem_fields file_in_dir_def)

section \<open>The failure path\<close>

text \<open>
  C5. When the response has a status other than 200, the call raises nothing and
  returns \<^verbatim>\<open>None\<close>; the files are as they were; and one line is printed, which names
  the identifier and the category: \<^verbatim>\<open>ligandType.CCD\<close>, \<^verbatim>\<open>ligandType.PRD\<close> or
  \<^verbatim>\<open>ligandType.CLC\<close> for a member of the enumeration, and for any other object what
  \<^verbatim>\<open>str\<close> gives for it.
\<close>

theorem bad_status_reports_and_returns_nothing:
  assumes "assembled_url ligand_id a = Inr url"
    and "fst (requests_get w url) = Response s c"
    and "s \<noteq> 200"
  shows "get_ligand_cif w ligand_id a =
           (Inr None,
            w\<lparr>requests_log := requests_log w @ [url],
              stdout := stdout w @
                [''Couldn'' @ [CHR 0x27] @ ''t find the file. Check if '' @ ligand_id @ '' & ''
                  @ (case a of
                       Member CCD \<Rightarrow> ''ligandType.CCD''
                     | Member PRD \<Rightarrow> ''ligandType.PRD''
                     | Member CLC \<Rightarrow> ''ligandType.CLC''
                     | Foreign v r \<Rightarrow> r)
                  @ '' are valid, if so try again'']\<rparr>)
       \<and> files (snd (get_ligand_cif w ligand_id a)) = files w"
proof -
  have name: "py_str a =
      (case a of
         Member CCD \<Rightarrow> ''ligandType.CCD''
       | Member PRD \<Rightarrow> ''ligandType.PRD''
       | Member CLC \<Rightarrow> ''ligandType.CLC''
       | Foreign v r \<Rightarrow> r)"
  proof (cases a)
    case (Member t)
    then show ?thesis by (cases t) simp_all
  next
    case (Foreign v r)
    then show ?thesis by simp
  qed
  have "get_ligand_cif w ligand_id a =
      (Inr None, w\<lparr>requests_log := requests_log w @ [url],
                   stdout := stdout w @ [diagnostic ligand_id a]\<rparr>)"
    by (simp add: run_bad_status [OF assms] response_means_logged(3) [OF assms(2)] print_def)
  then show ?thesis
    by (simp add: diagnostic_def name)
qed

theorem bad_status_reports_and_returns_nothing_witness:
  "assembled_url ''ZZZZ999'' (Member CCD) = Inr ZZZ_URL
   \<and> fst (requests_get (hem_world (Response 404 []) Stored) ZZZ_URL) = Response 404 []
   \<and> (404 :: int) \<noteq> 200
   \<and> fst (get_ligand_cif (hem_world (Response 404 []) Stored) ''ZZZZ999'' (Member CCD)) = Inr None
   \<and> files (snd (get_ligand_cif (hem_world (Response 404 []) Stored) ''ZZZZ999'' (Member CCD)))
       = Map.empty
   \<and> stdout (snd (get_ligand_cif (hem_world (Response 404 []) Stored) ''ZZZZ999'' (Member CCD)))
       = [''Couldn'' @ [CHR 0x27]
            @ ''t find the file. Check if ZZZZ999 & ligandType.CCD are valid, if so try again'']
   \<and> assembled_url ''PRD_000001'' (Member PRD) = Inr PRD_URL
   \<and> fst (requests_get (hem_world (Response 500 [1]) Stored) PRD_URL) = Response 500 [1]
   \<and> (500 :: int) \<noteq> 200
   \<and> fst (get_ligand_cif (hem_world (Response 500 [1]) Stored) ''PRD_000001'' (Member PRD))
       = Inr None
   \<and> stdout (snd (get_ligand_cif (hem_world (Response 500 [1]) Stored) ''PRD_000001'' (Member PRD)))
       = [''Couldn'' @ [CHR 0x27]
            @ ''t find the file. Check if PRD_000001 & ligandType.PRD are valid, if so try again'']
   \<and> assembled_url ''CLC_00002'' (Member CLC) = Inr CLC_URL
   \<and> fst (requests_get (hem_world (Response 403 []) Stored) CLC_URL) = Response 403 []
   \<and> (403 :: int) \<noteq> 200
   \<and> fst (get_ligand_cif (hem_world (Response 403 []) Stored) ''CLC_00002'' (Member CLC))
       = Inr None
   \<and> stdout (snd (get_ligand_cif (hem_world (Response 403 []) Stored) ''CLC_00002'' (Member CLC)))
       = [''Couldn'' @ [CHR 0x27]
            @ ''t find the file. Check if CLC_00002 & ligandType.CLC are valid, if so try again'']"
  using
    bad_status_reports_and_returns_nothing
      [of "''ZZZZ999''" "Member CCD" ZZZ_URL "hem_world (Response 404 []) Stored" 404 "[]"]
    bad_status_reports_and_returns_nothing
      [of "''PRD_000001''" "Member PRD" PRD_URL "hem_world (Response 500 [1]) Stored" 500 "[1]"]
    bad_status_reports_and_returns_nothing
      [of "''CLC_00002''" "Member CLC" CLC_URL "hem_world (Response 403 []) Stored" 403 "[]"]
  by (simp add: sample_urls sample_gets hem_fields)

section \<open>An unrecognised category\<close>

text \<open>
  C6, as the code has it. When the category argument selects no case of the
  \<^verbatim>\<open>match\<close> (it has no \<^verbatim>\<open>value\<close>, or its value compares equal to none of
  \<^verbatim>\<open>ccd\<close>, \<^verbatim>\<open>prd\<close>, \<^verbatim>\<open>clc\<close>), the call raises, always the same exception
  for the same argument (\<^verbatim>\<open>AttributeError\<close> when there is no \<^verbatim>\<open>value\<close>, else
  \<^verbatim>\<open>UnboundLocalError\<close> at the first use of \<^verbatim>\<open>ligand_dir\<close>); no URL is assembled
  and the world, its request log included, is untouched.
\<close>

theorem unmatched_category_fails_before_network:
  assumes "\<not> selects_case a"
  shows "get_ligand_cif w ligand_id a =
           (Inl (if attr_value a = Inl AttributeError then AttributeError else UnboundLocalError), w)
       \<and> assembled_url ligand_id a =
           Inl (if attr_value a = Inl AttributeError then AttributeError else UnboundLocalError)"
proof -
  have u: "assembled_url ligand_id a =
           Inl (if attr_value a = Inl AttributeError then AttributeError else UnboundLocalError)"
  proof (cases a)
    case (Member t)
    with assms show ?thesis by (cases t) (simp_all add: selects_case_def)
  next
    case (Foreign v s)
    show ?thesis
    proof (cases v)
      case None
      with Foreign show ?thesis by (simp add: assembled_url_def match_ligand_dir_def)
    next
      case (Some x)
      with Foreign assms show ?thesis
        by (simp add: selects_case_def assembled_url_def match_ligand_dir_def match_value_def)
    qed
  qed
  then show ?thesis by (simp add: run_before_url)
qed

theorem unmatched_category_fails_before_network_witness:
  "\<not> selects_case (Foreign (Some (Str ''xyz'')) ''Other.XYZ'')
   \<and> get_ligand_cif (hem_world (Response 200 []) Stored) ''HEM''
         (Foreign (Some (Str ''xyz'')) ''Other.XYZ'')
       = (Inl UnboundLocalError, hem_world (Response 200 []) Stored)
   \<and> \<not> selects_case (Foreign (Some (NotStr (\<lambda>l. False))) ''7'')
   \<and> get_ligand_cif (hem_world (Response 200 []) Stored) ''HEM''
         (Foreign (Some (NotStr (\<lambda>l. False))) ''7'')
       = (Inl UnboundLocalError, hem_world (Response 200 []) Stored)
   \<and> \<not> selects_case (Foreign None ''ccd'')
   \<and> get_ligand_cif (hem_world (Response 200 []) Stored) ''HEM'' (Foreign None ''ccd'')
       = (Inl AttributeError, hem_world (Response 200 []) Stored)"
  using
    unmatched_category_fails_before_network
      [of "Foreign (Some (Str ''xyz'')) ''Other.XYZ''" "hem_world (Response 200 []) Stored" "''HEM''"]
    unmatched_category_fails_before_network
      [of "Foreign (Some (NotStr (\<lambda>l. False))) ''7''" "hem_world (Response 200 []) Stored" "''HEM''"]
    unmatched_category_fails_before_network
      [of "Foreign None ''ccd''" "hem_world (Response 200 []) Stored" "''HEM''"]
  by (simp add: selects_case_def)

text \<open>
  C6, as the specification states it, fails: the \<^verbatim>\<open>match\<close> looks at the value only, so
  an object that is not a member of the enumeration but whose value is \<^verbatim>\<open>prd\<close> (a
  member of another enumeration, say) is served like \<^verbatim>\<open>ligandType.PRD\<close>. The call goes
  to the network and, with status 200, returns a path.
\<close>

theorem foreign_category_reaches_network_counterexample:
  "requests_log (snd (get_ligand_cif (hem_world (Response 200 [1]) Stored) ''PRD_000001''
       (Foreign (Some (Str ''prd'')) ''Other.X''))) = [PRD_URL]
   \<and> fst (get_ligand_cif (hem_world (Response 200 [1]) Stored) ''PRD_000001''
       (Foreign (Some (Str ''prd'')) ''Other.X'')) = Inr (Some ''/home/user/PRD_000001.cif'')"
proof -
  have url: "assembled_url ''PRD_000001'' (Foreign (Some (Str ''prd'')) ''Other.X'') = Inr PRD_URL"
    using foreign_url_like_member [of "''PRD_000001''" PRD "''Other.X''"]
    by (simp add: sample_urls)
  have got: "fst (requests_get (hem_world (Response 200 [1]) Stored) PRD_URL) = Response 200 [1]"
    by (simp add: sample_gets)
  have dir: "getcwd (hem_world (Response 200 [1]) Stored) = Inr ''/home/user''"
    by (simp add: hem_fields)
  have disk: "disk (hem_world (Response 200 [1]) Stored)
      (file_in_dir ''/home/user'' (''PRD_000001'' @ ''.cif'')) = Stored"
    by (simp add: hem_fields)
  show ?thesis
    by (simp add: run_stored [OF url got dir disk] hem_fields file_in_dir_def)
qed

section \<open>Fetching again\<close>

text \<open>
  C7. After a successful fetch of an identifier, a later successful fetch of the same
  identifier (in the same working directory, with the files as the first fetch left them)
  raises nothing: it returns the same path, the file at that path, which existed, now
  holds the new payload, and every other path of the file system is as it was.
\<close>

theorem refetch_overwrites:
  assumes first: "get_ligand_cif w0 ligand_id a = (Inr (Some p), w1)"
    and later: "files w2 = files w1" "getcwd w2 = getcwd w1"
    and url: "assembled_url ligand_id a = Inr url"
    and again: "fst (requests_get w2 url) = Response 200 c2" "disk w2 p = Stored"
  shows "files w1 p \<noteq> None
       \<and> fst (get_ligand_cif w2 ligand_id a) = Inr (Some p)
       \<and> files (snd (get_ligand_cif w2 ligand_id a)) p = Some c2
       \<and> (\<forall>q. q \<noteq> p \<longrightarrow> files (snd (get_ligand_cif w2 ligand_id a)) q = files w1 q)"
proof -
  from success_inversion [OF first] obtain u c cwd where
    cwd: "getcwd w0 = Inr cwd" and p: "p = file_in_dir cwd (ligand_id @ ''.cif'')"
    and w1: "w1 = w0\<lparr>requests_log := requests_log w0 @ [u], files := (files w0)(p \<mapsto> c)\<rparr>"
    by blast
  from w1 have old: "files w1 p = Some c" and "getcwd w1 = getcwd w0"
    by simp_all
  with later cwd have cwd2: "getcwd w2 = Inr cwd"
    by simp
  from again(2) p have "disk w2 (file_in_dir cwd (ligand_id @ ''.cif'')) = Stored"
    by simp
  from run_stored [OF url again(1) cwd2 this] p later(1) old show ?thesis
    by simp
qed

theorem refetch_overwrites_witness:
  "get_ligand_cif (hem_world (Response 200 [1]) Stored) ''HEM'' (Member CCD)
     = (Inr (Some ''/home/user/HEM.cif''), hem_world_fetched [1])
   \<and> files (hem_world_fetched [1]) ''/home/user/HEM.cif'' = Some [1]
   \<and> fst (requests_get ((hem_world_fetched [1])\<lparr>remote := \<lambda>url. Response 200 [2, 3]\<rparr>) HEM_URL)
       = Response 200 [2, 3]
   \<and> fst (get_ligand_cif ((hem_world_fetched [1])\<lparr>remote := \<lambda>url. Response 200 [2, 3]\<rparr>)
           ''HEM'' (Member CCD))
       = Inr (Some ''/home/user/HEM.cif'')
   \<and> files (snd (get_ligand_cif ((hem_world_fetched [1])\<lparr>remote := \<lambda>url. Response 200 [2, 3]\<rparr>)
           ''HEM'' (Member CCD))) ''/home/user/HEM.cif''
       = Some [2, 3]"
  using refetch_overwrites [of "hem_world (Response 200 [1]) Stored" "''HEM''" "Member CCD"
      "''/home/user/HEM.cif''" "hem_world_fetched [1]"
      "(hem_world_fetched [1])\<lparr>remote := \<lambda>url. Response 200 [2, 3]\<rparr>" HEM_URL "[2, 3]"]
  by (simp add: hem_first hem_url hem_fetched_fields requests_get_def HEM_URL_def
      startswith_sep_def)

section \<open>Which failures reach the caller\<close>



section \<open>Same payload, same artifact\<close>

text \<open>
  C9, as the code has it. After each of two successful fetches of the same identifier
  and category that received the same payload, the file at the returned path holds
  exactly that payload; and when the two fetches were made in the same working directory,
  they return the same path.
\<close>

theorem same_payload_same_artifact:
  assumes one: "get_ligand_cif w1 ligand_id a = (Inr (Some p1), w1')"
    and two: "get_ligand_cif w2 ligand_id a = (Inr (Some p2), w2')"
    and url: "assembled_url ligand_id a = Inr url"
    and got: "fst (requests_get w1 url) = Response s1 payload"
             "fst (requests_get w2 url) = Response s2 payload"
  shows "files w1' p1 = Some payload \<and> files w2' p2 = Some payload
       \<and> (getcwd w1 = getcwd w2 \<longrightarrow> p1 = p2)"
proof -
  from success_inversion [OF one] url got(1) obtain cwd1 where
    a: "getcwd w1 = Inr cwd1" "p1 = file_in_dir cwd1 (ligand_id @ ''.cif'')"
      "files w1' p1 = Some payload"
    by auto
  from success_inversion [OF two] url got(2) obtain cwd2 where
    b: "getcwd w2 = Inr cwd2" "p2 = file_in_dir cwd2 (ligand_id @ ''.cif'')"
      "files w2' p2 = Some payload"
    by auto
  from a b show ?thesis
    by simp
qed

theorem same_payload_same_artifact_witness:
  "get_ligand_cif (hem_world (Response 200 [4, 2]) Stored) ''HEM'' (Member CCD)
     = (Inr (Some ''/home/user/HEM.cif''), hem_world_fetched [4, 2])
   \<and> get_ligand_cif (hem_world_fetched [4, 2]) ''HEM'' (Member CCD)
     = (Inr (Some ''/home/user/HEM.cif''),
        snd (get_ligand_cif (hem_world_fetched [4, 2]) ''HEM'' (Member CCD)))
   \<and> getcwd (hem_world (Response 200 [4, 2]) Stored) = getcwd (hem_world_fetched [4, 2])
   \<and> fst (requests_get (hem_world (Response 200 [4, 2]) Stored) HEM_URL) = Response 200 [4, 2]
   \<and> fst (requests_get (hem_world_fetched [4, 2]) HEM_URL) = Response 200 [4, 2]
   \<and> files (hem_world_fetched [4, 2]) ''/home/user/HEM.cif'' = Some [4, 2]
   \<and> files (snd (get_ligand_cif (hem_world_fetched [4, 2]) ''HEM'' (Member CCD)))
        ''/home/user/HEM.cif'' = Some [4, 2]"
proof -
  have second: "get_ligand_cif (hem_world_fetched [4, 2]) ''HEM'' (Member CCD)
     = (Inr (Some ''/home/user/HEM.cif''),
        snd (get_ligand_cif (hem_world_fetched [4, 2]) ''HEM'' (Member CCD)))"
    using hem_again [of "[4, 2]"] by (simp add: prod_eq_iff)
  have gets: "fst (requests_get (hem_world (Response 200 [4, 2]) Stored) HEM_URL) = Response 200 [4, 2]"
    "fst (requests_get (hem_world_fetched [4, 2]) HEM_URL) = Response 200 [4, 2]"
    by (simp_all add: hem_get hem_fetched_get)
  have dirs: "getcwd (hem_world (Response 200 [4, 2]) Stored) = getcwd (hem_world_fetched [4, 2])"
    by (simp add: hem_fields hem_fetched_fields)
  from same_payload_same_artifact [OF hem_first second hem_url gets] hem_first second dirs gets
  show ?thesis
    by simp
qed

text \<open>
  C9, as the specification states it, fails: the returned path starts with the working
  directory, which is neither an argument nor the payload. The same identifier fetched
  with the same payload in \<^verbatim>\<open>/home/user\<close> and in \<^verbatim>\<open>/tmp\<close> gives two different paths.
\<close>

theorem other_directory_other_path_counterexample:
  "fst (requests_get (hem_world (Response 200 [4, 2]) Stored) HEM_URL) = Response 200 [4, 2]
   \<and> fst (requests_get ((hem_world (Response 200 [4, 2]) Stored)\<lparr>getcwd := Inr ''/tmp''\<rparr>) HEM_URL)
       = Response 200 [4, 2]
   \<and> fst (get_ligand_cif (hem_world (Response 200 [4, 2]) Stored) ''HEM'' (Member CCD))
       = Inr (Some ''/home/user/HEM.cif'')
   \<and> fst (get_ligand_cif ((hem_world (Response 200 [4, 2]) Stored)\<lparr>getcwd := Inr ''/tmp''\<rparr>)
         ''HEM'' (Member CCD))
       = Inr (Some ''/tmp/HEM.cif'')
   \<and> fst (get_ligand_cif (hem_world (Response 200 [4, 2]) Stored) ''HEM'' (Member CCD))
       \<noteq> fst (get_ligand_cif ((hem_world (Response 200 [4, 2]) Stored)\<lparr>getcwd := Inr ''/tmp''\<rparr>)
            ''HEM'' (Member CCD))"
proof -
  let ?w = "(hem_world (Response 200 [4, 2]) Stored)\<lparr>getcwd := Inr ''/tmp''\<rparr>"
  have got: "fst (requests_get ?w HEM_URL) = Response 200 [4, 2]"
    by (simp add: requests_get_def hem_world_def HEM_URL_def startswith_sep_def)
  have dir: "getcwd ?w = Inr ''/tmp''"
    by simp
  have disk: "disk ?w (file_in_dir ''/tmp'' (''HEM'' @ ''.cif'')) = Stored"
    by (simp add: hem_world_def)
  have there: "fst (get_ligand_cif ?w ''HEM'' (Member CCD)) = Inr (Some ''/tmp/HEM.cif'')"
    by (simp add: run_stored [OF hem_url got dir disk] file_in_dir_def)
  from got there show ?thesis
    by (simp add: hem_first hem_get)
qed

section \<open>The empty identifier\<close>

text \<open>
  C10. With the empty identifier and any of the three categories, the indexing raises
  \<^verbatim>\<open>IndexError\<close> in the \<^verbatim>\<open>match\<close>, outside the \<^verbatim>\<open>try\<close>: the exception reaches the
  caller, and the world after the call is the world before it (nothing requested, no
  file created, nothing printed).
\<close>

theorem empty_identifier_raises:
  "get_ligand_cif w [] (Member t) = (Inl IndexError, w)"
  by (cases t)
     (simp_all add: get_ligand_cif_def match_ligand_dir_def match_value_def py_getitem_empty)

end
